theory Spec2Isabelle
  imports Complex_Main "HOL-Library.AList" "HOL-Library.Sublist"
begin

section \<open>Values of the relay\<close>

text \<open>
  The handlers of \<^verbatim>\<open>heroku_webhook_server.py\<close> build and inspect JSON-compatible Python
  values. A Python \<^verbatim>\<open>dict\<close> keeps its keys in insertion order, so an object is an
  association list; \<^verbatim>\<open>d[k] = v\<close> on a dict is \<^const>\<open>AList.update\<close> (overwrite in
  place, else append). Python \<^verbatim>\<open>float\<close>s (the clock readings) are carried as reals:
  the handlers never compute with them.
\<close>

datatype json =
    JNull
  | JBool bool
  | JInt int
  | JFloat real
  | JStr string
  | JArr "json list"
  | JObj "(string \<times> json) list"

text \<open>
  The exceptions that can reach the handlers. \<open>BadRequest\<close> and \<open>UnsupportedMediaType\<close>
  are what \<^verbatim>\<open>request.get_json()\<close> raises, \<open>TypeError v\<close> is Python's item assignment
  on the non-dict value \<open>v\<close>, \<open>RequestException\<close> is the class the inner
  \<^verbatim>\<open>except\<close> of \<^verbatim>\<open>webhook_endpoint\<close> names, and \<open>OtherException\<close> stands for any
  exception outside that class.
\<close>

datatype exn =
    BadRequest
  | UnsupportedMediaType
  | TypeError json
  | RequestException string
  | OtherException string

fun is_RequestException :: "exn \<Rightarrow> bool" where
  "is_RequestException (RequestException m) = True"
| "is_RequestException ex = False"

text \<open>
  The Flask request object, as far as \<^verbatim>\<open>webhook_endpoint\<close> reads it:
  \<open>headers r name\<close> is \<^verbatim>\<open>request.headers.get(name)\<close>, \<open>get_json r\<close> is the outcome of
  \<^verbatim>\<open>request.get_json()\<close> (\<open>Inl\<close> when it raises), \<open>form r\<close> is
  \<^verbatim>\<open>request.form.to_dict()\<close> and \<open>get_data r\<close> is \<^verbatim>\<open>request.get_data(as_text=True)\<close>.
\<close>

record request =
  headers :: "string \<Rightarrow> string option"
  remote_addr :: "string option"
  get_json :: "exn + json"
  form :: "(string \<times> string) list"
  get_data :: string

text \<open>One call of \<^verbatim>\<open>requests.post\<close>: the URL and the keyword arguments given.\<close>

record post_request =
  url :: string
  json_body :: json
  timeout :: nat
  post_headers :: "(string \<times> string) list"

text \<open>
  Everything outside the handlers: the configured downstream URL, \<^verbatim>\<open>json.loads\<close>
  (\<open>None\<close> when it raises), \<^verbatim>\<open>requests.post\<close> (\<open>Inr\<close> the status code of the
  response, \<open>Inl\<close> the exception raised), Python's \<^verbatim>\<open>str(e)\<close> on an exception, and
  the clock: the first and second reading of \<^verbatim>\<open>time.time()\<close> and the string
  \<^verbatim>\<open>time.strftime\<close> returns.
\<close>

record environment =
  LOCAL_SERVER_URL :: string
  json_loads :: "string \<Rightarrow> json option"
  requests_post :: "post_request \<Rightarrow> exn + nat"
  str_exn :: "exn \<Rightarrow> string"
  time_time_1 :: real
  time_strftime :: string
  time_time_2 :: real

text \<open>
  What a handler does: the value given to \<^verbatim>\<open>jsonify\<close>, the HTTP status, and the
  downstream POSTs it issued, in order. The last is the log of calls that the handler
  threads through its run: it starts empty and only \<open>call_post\<close> below extends it.
\<close>

record outcome =
  response :: json
  status_code :: nat
  posts :: "post_request list"

section \<open>Python primitives\<close>

definition try_bind :: "exn + 'a \<Rightarrow> ('a \<Rightarrow> exn + 'b) \<Rightarrow> exn + 'b" where
  "try_bind m f = (case m of Inl ex \<Rightarrow> Inl ex | Inr v \<Rightarrow> f v)"

text \<open>
  Executing \<^verbatim>\<open>requests.post(...)\<close>: the call is appended to the log of calls made
  so far, and the environment decides what it answers or raises. This is the only
  place where the log grows, so a handler's log holds a call exactly when the handler
  executed it.
\<close>

definition call_post ::
  "environment \<Rightarrow> post_request \<Rightarrow> post_request list \<Rightarrow> (exn + nat) \<times> post_request list" where
  "call_post e pr calls = (requests_post e pr, calls @ [pr])"

text \<open>\<^verbatim>\<open>obj[key] = value\<close> with a string key: only a dict accepts it.\<close>

fun setitem :: "json \<Rightarrow> string \<Rightarrow> json \<Rightarrow> exn + json" where
  "setitem (JObj kvs) k v = Inr (JObj (AList.update k v kvs))"
| "setitem other k v = Inl (TypeError other)"

text \<open>Reading a key of an object; \<open>None\<close> when the value has no such key.\<close>

fun get_field :: "json \<Rightarrow> string \<Rightarrow> json option" where
  "get_field (JObj kvs) k = map_of kvs k"
| "get_field other k = None"

fun keys :: "json \<Rightarrow> string list" where
  "keys (JObj kvs) = map fst kvs"
| "keys other = []"

text \<open>\<^verbatim>\<open>str(n)\<close> for a non-negative integer: its decimal digits.\<close>

definition digit_char :: "nat \<Rightarrow> char" where
  "digit_char d = char_of (48 + d)"

fun str_nat :: "nat \<Rightarrow> string" where
  "str_nat n = (if n < 10 then [digit_char n] else str_nat (n div 10) @ [digit_char (n mod 10)])"

declare str_nat.simps [simp del]

text \<open>
  The truth value of a \<^verbatim>\<open>requests.Response\<close> is its \<^verbatim>\<open>ok\<close> property: false exactly
  for the status codes \<^verbatim>\<open>raise_for_status\<close> rejects, 400 to 599.
\<close>

definition response_bool :: "nat \<Rightarrow> bool" where
  "response_bool sc = (\<not> (400 \<le> sc \<and> sc < 600))"

section \<open>Message texts\<close>

text \<open>The Korean literals of the source, as their UTF-8 bytes.\<close>

definition msg_received :: string where
  "msg_received = [CHR 0xED, CHR 0x97, CHR 0xA4, CHR 0xEB, CHR 0xA1, CHR 0x9C, CHR 0xEC, CHR 0xBF,
     CHR 0xA0, CHR 0xEC, CHR 0x97, CHR 0x90, CHR 0xEC, CHR 0x84, CHR 0x9C, CHR 0x20, CHR 0xEC,
     CHR 0x9B, CHR 0xB9, CHR 0xED, CHR 0x9B, CHR 0x85, CHR 0x20, CHR 0xEC, CHR 0x88, CHR 0x98,
     CHR 0xEC, CHR 0x8B, CHR 0xA0, CHR 0x20, CHR 0xEC, CHR 0x99, CHR 0x84, CHR 0xEB, CHR 0xA3,
     CHR 0x8C]"

definition msg_processing_error :: string where
  "msg_processing_error = [CHR 0xEC, CHR 0x9B, CHR 0xB9, CHR 0xED, CHR 0x9B, CHR 0x85, CHR 0x20,
     CHR 0xEC, CHR 0xB2, CHR 0x98, CHR 0xEB, CHR 0xA6, CHR 0xAC, CHR 0x20, CHR 0xEC, CHR 0xA4,
     CHR 0x91, CHR 0x20, CHR 0xEC, CHR 0x98, CHR 0xA4, CHR 0xEB, CHR 0xA5, CHR 0x98, CHR 0x20,
     CHR 0xEB, CHR 0xB0, CHR 0x9C, CHR 0xEC, CHR 0x83, CHR 0x9D]"

definition msg_response_error :: string where
  "msg_response_error = [CHR 0xEB, CHR 0xA1, CHR 0x9C, CHR 0xEC, CHR 0xBB, CHR 0xAC, CHR 0x20,
     CHR 0xEC, CHR 0x84, CHR 0x9C, CHR 0xEB, CHR 0xB2, CHR 0x84, CHR 0x20, CHR 0xEC, CHR 0x9D,
     CHR 0x91, CHR 0xEB, CHR 0x8B, CHR 0xB5, CHR 0x20, CHR 0xEC, CHR 0x98, CHR 0xA4, CHR 0xEB,
     CHR 0xA5, CHR 0x98, CHR 0x3A, CHR 0x20]"

definition msg_connect_failed :: string where
  "msg_connect_failed = [CHR 0xEB, CHR 0xA1, CHR 0x9C, CHR 0xEC, CHR 0xBB, CHR 0xAC, CHR 0x20,
     CHR 0xEC, CHR 0x84, CHR 0x9C, CHR 0xEB, CHR 0xB2, CHR 0x84, CHR 0x20, CHR 0xEC, CHR 0x97,
     CHR 0xB0, CHR 0xEA, CHR 0xB2, CHR 0xB0, CHR 0x20, CHR 0xEC, CHR 0x8B, CHR 0xA4, CHR 0xED,
     CHR 0x8C, CHR 0xA8, CHR 0x3A, CHR 0x20]"

definition msg_test_sent :: string where
  "msg_test_sent = [CHR 0xED, CHR 0x85, CHR 0x8C, CHR 0xEC, CHR 0x8A, CHR 0xA4, CHR 0xED, CHR 0x8A,
     CHR 0xB8, CHR 0x20, CHR 0xEC, CHR 0x9B, CHR 0xB9, CHR 0xED, CHR 0x9B, CHR 0x85, CHR 0x20,
     CHR 0xEC, CHR 0xA0, CHR 0x84, CHR 0xEC, CHR 0x86, CHR 0xA1, CHR 0x20, CHR 0xEC, CHR 0x99,
     CHR 0x84, CHR 0xEB, CHR 0xA3, CHR 0x8C]"

definition msg_test_failed :: string where
  "msg_test_failed = [CHR 0xED, CHR 0x85, CHR 0x8C, CHR 0xEC, CHR 0x8A, CHR 0xA4, CHR 0xED, CHR 0x8A,
     CHR 0xB8, CHR 0x20, CHR 0xEC, CHR 0x9B, CHR 0xB9, CHR 0xED, CHR 0x9B, CHR 0x85, CHR 0x20,
     CHR 0xEC, CHR 0xA0, CHR 0x84, CHR 0xEC, CHR 0x86, CHR 0xA1, CHR 0x20, CHR 0xEC, CHR 0x8B,
     CHR 0xA4, CHR 0xED, CHR 0x8C, CHR 0xA8]"

section \<open>The /webhook handler\<close>

text \<open>Line 41: the forwarded-for header if present, else the peer address.\<close>

definition client_ip :: "request \<Rightarrow> json" where
  "client_ip r =
     (case headers r ''X-Forwarded-For'' of
        Some v \<Rightarrow> JStr v
      | None \<Rightarrow> (case remote_addr r of Some a \<Rightarrow> JStr a | None \<Rightarrow> JNull))"

text \<open>Line 47.\<close>

definition content_type :: "request \<Rightarrow> string" where
  "content_type r = (case headers r ''Content-Type'' of Some v \<Rightarrow> v | None \<Rightarrow> '''')"

definition form_to_dict :: "request \<Rightarrow> (string \<times> json) list" where
  "form_to_dict r = map (\<lambda>(k, v). (k, JStr v)) (form r)"

text \<open>
  Lines 49 to 60: the value bound to \<^verbatim>\<open>webhook_data\<close>. \<^verbatim>\<open>'application/json' in
  content_type\<close> is Python's substring test. An exception of \<^verbatim>\<open>get_json\<close> is not
  caught here; the bare \<^verbatim>\<open>except\<close> around \<^verbatim>\<open>json.loads\<close> catches everything.
\<close>

definition normalize :: "environment \<Rightarrow> request \<Rightarrow> exn + json" where
  "normalize e r =
     (if sublist ''application/json'' (content_type r) then get_json r
      else
        let webhook_data = form_to_dict r in
        if webhook_data = [] then
          (let raw_data = get_data r in
           case json_loads e raw_data of
             Some v \<Rightarrow> Inr v
           | None \<Rightarrow> Inr (JObj [(''message'', JStr raw_data)]))
        else Inr (JObj webhook_data))"

text \<open>Lines 63 to 65: three item assignments, each of which may raise.\<close>

definition enrich :: "environment \<Rightarrow> request \<Rightarrow> json \<Rightarrow> exn + json" where
  "enrich e r webhook_data =
     try_bind (setitem webhook_data ''heroku_received_at'' (JFloat (time_time_1 e))) (\<lambda>d1.
     try_bind (setitem d1 ''heroku_timestamp'' (JStr (time_strftime e))) (\<lambda>d2.
     setitem d2 ''client_ip'' (client_ip r)))"

text \<open>Lines 75 to 80: the arguments of the one \<^verbatim>\<open>requests.post\<close> call.\<close>

definition forward_request :: "environment \<Rightarrow> json \<Rightarrow> post_request" where
  "forward_request e webhook_data =
     \<lparr>url = LOCAL_SERVER_URL e @ ''/webhook'',
      json_body = webhook_data,
      timeout = 10,
      post_headers = [(''Content-Type'', ''application/json'')]\<rparr>"

text \<open>
  Lines 70 to 91: the inner \<^verbatim>\<open>try\<close>. It executes the call once, on the log it is
  given, and returns \<^verbatim>\<open>(local_success, local_error)\<close> with the log after the call. Only
  a \<^verbatim>\<open>RequestException\<close> is caught there; anything else propagates. No branch calls
  again.
\<close>

definition deliver ::
  "environment \<Rightarrow> json \<Rightarrow> post_request list \<Rightarrow>
     (exn + (bool \<times> string option)) \<times> post_request list" where
  "deliver e webhook_data calls =
     (case call_post e (forward_request e webhook_data) calls of
        (Inr sc, calls') \<Rightarrow>
          if sc = 200 then (Inr (True, None), calls')
          else (Inr (False, Some (msg_response_error @ str_nat sc)), calls')
      | (Inl ex, calls') \<Rightarrow>
          if is_RequestException ex
          then (Inr (False, Some (msg_connect_failed @ str_exn e ex)), calls')
          else (Inl ex, calls'))"

text \<open>
  Lines 108 to 114: the outer \<^verbatim>\<open>except Exception\<close>, reached with the log \<open>ps\<close> of the
  calls executed before the exception.
\<close>

definition error_response :: "environment \<Rightarrow> exn \<Rightarrow> post_request list \<Rightarrow> outcome" where
  "error_response e ex ps =
     \<lparr>response = JObj
        [(''success'', JBool False),
         (''error'', JStr (str_exn e ex)),
         (''message'', JStr msg_processing_error)],
      status_code = 500,
      posts = ps\<rparr>"

definition json_of_error :: "string option \<Rightarrow> json" where
  "json_of_error local_error = (case local_error of None \<Rightarrow> JNull | Some m \<Rightarrow> JStr m)"

text \<open>Lines 94 to 106, reached with the log \<open>ps\<close> that the inner \<^verbatim>\<open>try\<close> left.\<close>

definition ack_response ::
  "environment \<Rightarrow> json \<Rightarrow> bool \<Rightarrow> string option \<Rightarrow> post_request list \<Rightarrow> outcome" where
  "ack_response e webhook_data local_success local_error ps =
     \<lparr>response = JObj
        [(''success'', JBool True),
         (''message'', JStr msg_received),
         (''timestamp'', JFloat (time_time_2 e)),
         (''data_received'', webhook_data),
         (''local_delivery'', JObj
            [(''success'', JBool local_success),
             (''error'', json_of_error local_error),
             (''target_url'', JStr (LOCAL_SERVER_URL e))])],
      status_code = 200,
      posts = ps\<rparr>"

text \<open>
  The handler, lines 39 to 114, started on the empty log. Normalization and enrichment
  make no call; the log of the outcome is whatever \<^const>\<open>deliver\<close> returns.
\<close>

definition webhook_endpoint :: "environment \<Rightarrow> request \<Rightarrow> outcome" where
  "webhook_endpoint e r =
     (let calls0 = [] in
      case try_bind (normalize e r) (enrich e r) of
        Inl ex \<Rightarrow> error_response e ex calls0
      | Inr webhook_data \<Rightarrow>
          (case deliver e webhook_data calls0 of
             (Inl ex, calls1) \<Rightarrow> error_response e ex calls1
           | (Inr (local_success, local_error), calls1) \<Rightarrow>
               ack_response e webhook_data local_success local_error calls1))"

section \<open>The /test handler\<close>

text \<open>Lines 119 to 127.\<close>

definition test_data :: "environment \<Rightarrow> json" where
  "test_data e = JObj
     [(''symbol'', JStr ''BTCUSDT''),
      (''action'', JStr ''buy''),
      (''price'', JInt 45000),
      (''strategy'', JStr ''test_strategy''),
      (''timestamp'', JFloat (time_time_1 e)),
      (''test'', JBool True),
      (''source'', JStr ''heroku_test'')]"

definition test_request :: "environment \<Rightarrow> post_request" where
  "test_request e =
     \<lparr>url = LOCAL_SERVER_URL e @ ''/webhook'',
      json_body = test_data e,
      timeout = 10,
      post_headers = []\<rparr>"

text \<open>
  Lines 130 to 150, started on the empty log. The handler does not read the request,
  so GET and POST run the same code; \<^verbatim>\<open>except Exception\<close> catches whatever the call raises, and both returns
  leave the status at Flask's default 200.
\<close>

definition test_webhook :: "environment \<Rightarrow> outcome" where
  "test_webhook e =
     (case call_post e (test_request e) [] of
        (Inr sc, calls1) \<Rightarrow>
          \<lparr>response = JObj
             [(''success'', JBool True),
              (''message'', JStr msg_test_sent),
              (''test_data'', test_data e),
              (''local_response'',
                 if response_bool sc then JInt (int sc) else JStr ''No response'')],
           status_code = 200,
           posts = calls1\<rparr>
      | (Inl ex, calls1) \<Rightarrow>
          \<lparr>response = JObj
             [(''success'', JBool False),
              (''error'', JStr (str_exn e ex)),
              (''message'', JStr msg_test_failed),
              (''test_data'', test_data e)],
           status_code = 200,
           posts = calls1\<rparr>)"

section \<open>Outcomes of the forward call\<close>

text \<open>
  The outcomes the inner \<^verbatim>\<open>try\<close> of \<^verbatim>\<open>webhook_endpoint\<close> absorbs: any response, and
  any exception of class \<^verbatim>\<open>RequestException\<close> (connection refused, timeout, DNS
  failure are all of that class).
\<close>

fun absorbed :: "exn + nat \<Rightarrow> bool" where
  "absorbed (Inr sc) = True"
| "absorbed (Inl ex) = is_RequestException ex"

text \<open>The three fields the enrichment sets.\<close>

definition enrichment_keys :: "string set" where
  "enrichment_keys = {''heroku_received_at'', ''heroku_timestamp'', ''client_ip''}"

text \<open>Reading a decimal numeral back, to say what \<^const>\<open>str_nat\<close> prints.\<close>

definition digit_val :: "char \<Rightarrow> nat" where
  "digit_val c = of_char c - 48"

definition nat_of_str :: "string \<Rightarrow> nat" where
  "nat_of_str s = foldl (\<lambda>a c. 10 * a + digit_val c) 0 s"

section \<open>The fallback chain as the specification words it\<close>

text \<open>
  The specification describes normalization as an ordered sequence of attempts, the
  first match winning. Each attempt below follows one numbered step of that
  description; \<open>None\<close> means the step does not apply and the next one is tried.
\<close>

fun first_match :: "'a option list \<Rightarrow> 'a option" where
  "first_match [] = None"
| "first_match (None # steps) = first_match steps"
| "first_match (Some x # steps) = Some x"

text \<open>
  Step 1: a content type containing \<^verbatim>\<open>application/json\<close> selects the JSON parse of the
  body, and its failure is the result of the step (it propagates).
\<close>

definition spec_step_json :: "environment \<Rightarrow> request \<Rightarrow> (exn + json) option" where
  "spec_step_json e r =
     (if sublist ''application/json'' (content_type r) then Some (get_json r) else None)"

text \<open>Step 2: the form fields, if there is at least one.\<close>

definition spec_step_form :: "environment \<Rightarrow> request \<Rightarrow> (exn + json) option" where
  "spec_step_form e r =
     (if form r \<noteq> [] then Some (Inr (JObj (map (\<lambda>(k, v). (k, JStr v)) (form r)))) else None)"

text \<open>Step 3: the raw text parsed as JSON; a failed parse is no match, not an error.\<close>

definition spec_step_raw_json :: "environment \<Rightarrow> request \<Rightarrow> (exn + json) option" where
  "spec_step_raw_json e r = map_option Inr (json_loads e (get_data r))"

text \<open>Step 4: the raw text wrapped under \<^verbatim>\<open>message\<close>.\<close>

definition spec_step_wrap :: "environment \<Rightarrow> request \<Rightarrow> (exn + json) option" where
  "spec_step_wrap e r = Some (Inr (JObj [(''message'', JStr (get_data r))]))"

definition spec_normalize :: "environment \<Rightarrow> request \<Rightarrow> (exn + json) option" where
  "spec_normalize e r =
     first_match [spec_step_json e r, spec_step_form e r, spec_step_raw_json e r, spec_step_wrap e r]"

section \<open>Sample inputs\<close>

text \<open>
  Concrete environments and requests on which the theorems below are instantiated.
  \<open>sample_loads\<close> agrees with \<^verbatim>\<open>json.loads\<close> on the bodies used here, and
  \<open>sample_str\<close> gives each exception a text.
\<close>

definition sample_loads :: "string \<Rightarrow> json option" where
  "sample_loads s =
     (if s = ''{}'' then Some (JObj [])
      else if s = ''[1]'' then Some (JArr [JInt 1])
      else if s = ''123'' then Some (JInt 123)
      else None)"

fun sample_str :: "exn \<Rightarrow> string" where
  "sample_str BadRequest = ''400 Bad Request''"
| "sample_str UnsupportedMediaType = ''415 Unsupported Media Type''"
| "sample_str (TypeError v) = ''object does not support item assignment''"
| "sample_str (RequestException m) = m"
| "sample_str (OtherException m) = m"

definition sample_env :: "(exn + nat) \<Rightarrow> environment" where
  "sample_env answer =
     \<lparr>LOCAL_SERVER_URL = ''http://localhost:8081'',
      json_loads = sample_loads,
      requests_post = (\<lambda>pr. answer),
      str_exn = sample_str,
      time_time_1 = 1700000000,
      time_strftime = ''2023-11-14 22:13:20 UTC'',
      time_time_2 = 1700000001\<rparr>"

text \<open>The downstream answers 200, answers 404, or refuses the connection.\<close>

definition env_up :: environment where
  "env_up = sample_env (Inr 200)"

definition env_404 :: environment where
  "env_404 = sample_env (Inr 404)"

definition env_down :: environment where
  "env_down = sample_env (Inl (RequestException ''Connection refused''))"

definition json_headers :: "string \<Rightarrow> string option" where
  "json_headers name = (if name = ''Content-Type'' then Some ''application/json'' else None)"

definition text_headers :: "string \<Rightarrow> string option" where
  "text_headers name = (if name = ''Content-Type'' then Some ''text/plain'' else None)"

text \<open>A JSON object sent as \<^verbatim>\<open>application/json\<close>, with no forwarded-for header.\<close>

definition req_signal :: request where
  \<open>req_signal =
     \<lparr>headers = json_headers,
      remote_addr = Some ''10.1.2.3'',
      get_json = Inr (JObj [(''symbol'', JStr ''BTCUSDT''), (''action'', JStr ''buy'')]),
      form = [],
      get_data = ''{"symbol": "BTCUSDT", "action": "buy"}''\<rparr>\<close>

text \<open>The same body arriving through a proxy that sets \<^verbatim>\<open>X-Forwarded-For\<close>.\<close>

definition req_proxied :: request where
  "req_proxied =
     req_signal\<lparr>headers := (\<lambda>name. if name = ''X-Forwarded-For'' then Some ''203.0.113.7''
                                    else json_headers name)\<rparr>"

text \<open>Malformed JSON sent as \<^verbatim>\<open>application/json\<close>: \<^verbatim>\<open>get_json\<close> raises.\<close>

definition req_bad_json :: request where
  "req_bad_json =
     \<lparr>headers = json_headers,
      remote_addr = Some ''10.1.2.3'',
      get_json = Inl BadRequest,
      form = [],
      get_data = ''{bad json''\<rparr>"

text \<open>Valid JSON that is not an object, sent as \<^verbatim>\<open>application/json\<close>.\<close>

definition req_array :: request where
  "req_array =
     \<lparr>headers = json_headers,
      remote_addr = Some ''10.1.2.3'',
      get_json = Inr (JArr [JInt 1]),
      form = [],
      get_data = ''[1]''\<rparr>"

text \<open>Plain text that is neither a form nor JSON.\<close>

definition req_text :: request where
  "req_text =
     \<lparr>headers = text_headers,
      remote_addr = Some ''10.1.2.3'',
      get_json = Inl UnsupportedMediaType,
      form = [],
      get_data = ''hello world''\<rparr>"

text \<open>A form post with one field.\<close>

definition form_headers :: "string \<Rightarrow> string option" where
  "form_headers name =
     (if name = ''Content-Type'' then Some ''application/x-www-form-urlencoded'' else None)"

definition req_form :: request where
  "req_form =
     \<lparr>headers = form_headers,
      remote_addr = Some ''10.1.2.3'',
      get_json = Inl UnsupportedMediaType,
      form = [(''symbol'', ''BTCUSDT'')],
      get_data = ''symbol=BTCUSDT''\<rparr>"

text \<open>A JSON object sent as plain text.\<close>

definition req_raw_object :: request where
  "req_raw_object =
     \<lparr>headers = text_headers,
      remote_addr = Some ''10.1.2.3'',
      get_json = Inl UnsupportedMediaType,
      form = [],
      get_data = ''{}''\<rparr>"

text \<open>What the enrichment makes of the sample payloads.\<close>

definition signal_enriched :: json where
  "signal_enriched = JObj
     [(''symbol'', JStr ''BTCUSDT''),
      (''action'', JStr ''buy''),
      (''heroku_received_at'', JFloat 1700000000),
      (''heroku_timestamp'', JStr ''2023-11-14 22:13:20 UTC''),
      (''client_ip'', JStr ''10.1.2.3'')]"

definition proxied_enriched :: json where
  "proxied_enriched = JObj
     [(''symbol'', JStr ''BTCUSDT''),
      (''action'', JStr ''buy''),
      (''heroku_received_at'', JFloat 1700000000),
      (''heroku_timestamp'', JStr ''2023-11-14 22:13:20 UTC''),
      (''client_ip'', JStr ''203.0.113.7'')]"

definition text_enriched :: json where
  "text_enriched = JObj
     [(''message'', JStr ''hello world''),
      (''heroku_received_at'', JFloat 1700000000),
      (''heroku_timestamp'', JStr ''2023-11-14 22:13:20 UTC''),
      (''client_ip'', JStr ''10.1.2.3'')]"

section \<open>Helper facts\<close>

lemma try_bind_simps [simp]:
  "try_bind (Inl ex) f = Inl ex"
  "try_bind (Inr v) f = f v"
  by (simp_all add: try_bind_def)

lemma enrich_object:
  "enrich e r (JObj kvs) =
     Inr (JObj (AList.update ''client_ip'' (client_ip r)
           (AList.update ''heroku_timestamp'' (JStr (time_strftime e))
             (AList.update ''heroku_received_at'' (JFloat (time_time_1 e)) kvs))))"
  by (simp add: enrich_def)

lemma enrich_not_object:
  "\<forall>kvs. v \<noteq> JObj kvs \<Longrightarrow> enrich e r v = Inl (TypeError v)"
  by (cases v) (simp_all add: enrich_def)

lemma enrich_Inr_object:
  "enrich e r v = Inr w \<Longrightarrow> \<exists>kvs. v = JObj kvs"
  by (cases v) (simp_all add: enrich_def)

lemma digit_val_digit_char: "d < 10 \<Longrightarrow> digit_val (digit_char d) = d"
  by (simp add: digit_val_def digit_char_def)

lemma nat_of_str_str_nat: "nat_of_str (str_nat n) = n"
proof (induction n rule: str_nat.induct)
  case (1 n)
  show ?case
  proof (cases "n < 10")
    case True
    then show ?thesis
      by (simp add: str_nat.simps [of n] nat_of_str_def digit_val_digit_char)
  next
    case False
    with 1 have "nat_of_str (str_nat (n div 10)) = n div 10" by simp
    with False show ?thesis
      by (simp add: str_nat.simps [of n] nat_of_str_def digit_val_digit_char)
  qed
qed

lemma deliver_log:
  "snd (deliver e wd calls) = calls @ [forward_request e wd]"
  by (simp add: deliver_def call_post_def split: sum.split)

lemma handler_after_enrich:
  "normalize e r = Inr v \<Longrightarrow> enrich e r v = Inr wd \<Longrightarrow>
   webhook_endpoint e r =
     (case deliver e wd [] of
        (Inl ex, calls1) \<Rightarrow> error_response e ex calls1
      | (Inr (ls, le), calls1) \<Rightarrow> ack_response e wd ls le calls1)"
  by (simp add: webhook_endpoint_def)

lemma handler_raise_normalize:
  "normalize e r = Inl ex \<Longrightarrow> webhook_endpoint e r = error_response e ex []"
  by (simp add: webhook_endpoint_def)

lemma handler_raise_enrich:
  "normalize e r = Inr v \<Longrightarrow> enrich e r v = Inl ex \<Longrightarrow>
   webhook_endpoint e r = error_response e ex []"
  by (simp add: webhook_endpoint_def)

lemma deliver_absorbed:
  "absorbed (requests_post e (forward_request e wd)) \<Longrightarrow>
   \<exists>ls le. deliver e wd [] = (Inr (ls, le), [forward_request e wd])"
  by (cases "requests_post e (forward_request e wd)") (auto simp: deliver_def call_post_def)

lemma deliver_200:
  "requests_post e (forward_request e wd) = Inr 200 \<Longrightarrow>
   deliver e wd [] = (Inr (True, None), [forward_request e wd])"
  by (simp add: deliver_def call_post_def)

lemma deliver_other_status:
  "requests_post e (forward_request e wd) = Inr sc \<Longrightarrow> sc \<noteq> 200 \<Longrightarrow>
   deliver e wd [] =
     (Inr (False, Some (msg_response_error @ str_nat sc)), [forward_request e wd])"
  by (simp add: deliver_def call_post_def)

lemma deliver_request_exception:
  "requests_post e (forward_request e wd) = Inl (RequestException m) \<Longrightarrow>
   deliver e wd [] =
     (Inr (False, Some (msg_connect_failed @ str_exn e (RequestException m))),
      [forward_request e wd])"
  by (simp add: deliver_def call_post_def)

lemma handler_posts_deliver:
  "normalize e r = Inr v \<Longrightarrow> enrich e r v = Inr wd \<Longrightarrow>
   posts (webhook_endpoint e r) = snd (deliver e wd [])"
  by (simp add: handler_after_enrich error_response_def ack_response_def
      split: sum.split prod.split)

lemma handler_posts_once:
  "normalize e r = Inr v \<Longrightarrow> enrich e r v = Inr wd \<Longrightarrow>
   posts (webhook_endpoint e r) = [forward_request e wd]"
  by (simp add: handler_posts_deliver deliver_log)

lemma handler_ack:
  "normalize e r = Inr v \<Longrightarrow> enrich e r v = Inr wd \<Longrightarrow>
   deliver e wd [] = (Inr (ls, le), ps) \<Longrightarrow>
   webhook_endpoint e r = ack_response e wd ls le ps"
  by (simp add: handler_after_enrich)

subsection \<open>The sample inputs, evaluated\<close>

lemma sample_env_sel [simp]:
  "LOCAL_SERVER_URL (sample_env a) = ''http://localhost:8081''"
  "json_loads (sample_env a) = sample_loads"
  "requests_post (sample_env a) pr = a"
  "str_exn (sample_env a) = sample_str"
  "time_time_1 (sample_env a) = 1700000000"
  "time_strftime (sample_env a) = ''2023-11-14 22:13:20 UTC''"
  "time_time_2 (sample_env a) = 1700000001"
  by (simp_all add: sample_env_def)

lemma json_content_type:
  "sublist ''application/json'' (content_type req_signal)"
  "sublist ''application/json'' (content_type req_proxied)"
  "sublist ''application/json'' (content_type req_bad_json)"
  "sublist ''application/json'' (content_type req_array)"
  by (simp_all add: content_type_def req_signal_def req_proxied_def req_bad_json_def
      req_array_def json_headers_def)

lemma text_content_type: "\<not> sublist ''application/json'' (content_type req_text)"
  by (simp add: content_type_def req_text_def text_headers_def sublist_code prefix_code)

lemma normalize_signal:
  "normalize (sample_env a) req_signal =
     Inr (JObj [(''symbol'', JStr ''BTCUSDT''), (''action'', JStr ''buy'')])"
  using json_content_type(1) by (simp add: normalize_def) (simp add: req_signal_def)

lemma normalize_proxied:
  "normalize (sample_env a) req_proxied =
     Inr (JObj [(''symbol'', JStr ''BTCUSDT''), (''action'', JStr ''buy'')])"
  using json_content_type(2) by (simp add: normalize_def) (simp add: req_proxied_def req_signal_def)

lemma normalize_bad_json: "normalize (sample_env a) req_bad_json = Inl BadRequest"
  using json_content_type(3) by (simp add: normalize_def) (simp add: req_bad_json_def)

lemma normalize_array: "normalize (sample_env a) req_array = Inr (JArr [JInt 1])"
  using json_content_type(4) by (simp add: normalize_def) (simp add: req_array_def)

lemma normalize_text:
  "normalize (sample_env a) req_text = Inr (JObj [(''message'', JStr ''hello world'')])"
  using text_content_type
  by (simp add: normalize_def) (simp add: req_text_def form_to_dict_def sample_loads_def)

lemma client_ip_samples:
  "client_ip req_signal = JStr ''10.1.2.3''"
  "client_ip req_proxied = JStr ''203.0.113.7''"
  "client_ip req_text = JStr ''10.1.2.3''"
  by (simp_all add: client_ip_def req_signal_def req_proxied_def req_text_def json_headers_def
      text_headers_def)

lemma enrich_signal:
  "enrich (sample_env a) req_signal
     (JObj [(''symbol'', JStr ''BTCUSDT''), (''action'', JStr ''buy'')]) = Inr signal_enriched"
  by (simp add: enrich_object client_ip_samples signal_enriched_def)

lemma enrich_proxied:
  "enrich (sample_env a) req_proxied
     (JObj [(''symbol'', JStr ''BTCUSDT''), (''action'', JStr ''buy'')]) = Inr proxied_enriched"
  by (simp add: enrich_object client_ip_samples proxied_enriched_def)

lemma enrich_text:
  "enrich (sample_env a) req_text (JObj [(''message'', JStr ''hello world'')]) = Inr text_enriched"
  by (simp add: enrich_object client_ip_samples text_enriched_def)

lemma enrich_array:
  "enrich (sample_env a) req_array (JArr [JInt 1]) = Inl (TypeError (JArr [JInt 1]))"
  by (simp add: enrich_def)

lemma str_nat_404: "str_nat 404 = ''404''"
  by code_simp


lemma other_content_types:
  "\<not> sublist ''application/json'' (content_type req_form)"
  "\<not> sublist ''application/json'' (content_type req_raw_object)"
  by (simp_all add: content_type_def req_form_def req_raw_object_def form_headers_def
      text_headers_def sublist_code prefix_code)

lemma error_response_sel [simp]:
  "status_code (error_response e ex ps) = 500"
  "posts (error_response e ex ps) = ps"
  "response (error_response e ex ps) =
     JObj [(''success'', JBool False), (''error'', JStr (str_exn e ex)),
           (''message'', JStr msg_processing_error)]"
  by (simp_all add: error_response_def)

lemma normalize_cases:
  "sublist ''application/json'' (content_type r) \<Longrightarrow> normalize e r = get_json r"
  "\<not> sublist ''application/json'' (content_type r) \<Longrightarrow> form r \<noteq> [] \<Longrightarrow>
     normalize e r = Inr (JObj (map (\<lambda>(k, v). (k, JStr v)) (form r)))"
  "\<not> sublist ''application/json'' (content_type r) \<Longrightarrow> form r = [] \<Longrightarrow>
     json_loads e (get_data r) = Some v \<Longrightarrow> normalize e r = Inr v"
  "\<not> sublist ''application/json'' (content_type r) \<Longrightarrow> form r = [] \<Longrightarrow>
     json_loads e (get_data r) = None \<Longrightarrow>
     normalize e r = Inr (JObj [(''message'', JStr (get_data r))])"
  by (simp_all add: normalize_def form_to_dict_def)

lemma enriched_keys:
  "enrich e r (JObj kvs) = Inr (JObj wd) \<Longrightarrow>
   set (map fst wd) = set (map fst kvs) \<union> enrichment_keys"
proof -
  assume "enrich e r (JObj kvs) = Inr (JObj wd)"
  then have "wd = AList.update ''client_ip'' (client_ip r)
      (AList.update ''heroku_timestamp'' (JStr (time_strftime e))
        (AList.update ''heroku_received_at'' (JFloat (time_time_1 e)) kvs))"
    by (simp add: enrich_object)
  then have "fst ` set wd =
      {''client_ip''} \<union> ({''heroku_timestamp''} \<union> ({''heroku_received_at''} \<union> fst ` set kvs))"
    by (simp only: dom_update)
  then show ?thesis
    by (auto simp: enrichment_keys_def)
qed

lemma enriched_distinct:
  "enrich e r (JObj kvs) = Inr (JObj wd) \<Longrightarrow> distinct (map fst kvs) \<Longrightarrow> distinct (map fst wd)"
  by (auto simp: enrich_object distinct_update)

lemma enriched_lookup:
  "enrich e r (JObj kvs) = Inr (JObj wd) \<Longrightarrow>
   map_of wd = (map_of kvs)
     (''heroku_received_at'' \<mapsto> JFloat (time_time_1 e),
      ''heroku_timestamp'' \<mapsto> JStr (time_strftime e),
      ''client_ip'' \<mapsto> client_ip r)"
  by (auto simp: enrich_object update_conv')

lemma test_status_always_200: "status_code (test_webhook e) = 200"
  by (simp add: test_webhook_def call_post_def split: sum.split)

lemma test_success_iff_returned:
  "get_field (response (test_webhook e)) ''success'' =
     Some (JBool (\<exists>sc. requests_post e (test_request e) = Inr sc))"
  by (cases "requests_post e (test_request e)") (simp_all add: test_webhook_def call_post_def)

lemma test_local_response:
  "requests_post e (test_request e) = Inr sc \<Longrightarrow>
   get_field (response (test_webhook e)) ''local_response'' =
     Some (if 400 \<le> sc \<and> sc < 600 then JStr ''No response'' else JInt (int sc))"
  by (simp add: test_webhook_def call_post_def response_bool_def)

section \<open>Acknowledgment of a received webhook\<close>

text \<open>
  C1. When normalization and enrichment complete without raising, and the forward
  call either returns a response (status 200 or not) or raises a request exception,
  the handler answers 200 with top-level success true, and the delivery outcome
  (success flag, error description, target URL) is the object under
  \<^verbatim>\<open>local_delivery\<close>.
\<close>

theorem ack_independent_of_delivery:
  assumes "normalize e r = Inr v" and "enrich e r v = Inr wd"
    and "absorbed (requests_post e (forward_request e wd))"
  shows "status_code (webhook_endpoint e r) = 200 \<and>
         get_field (response (webhook_endpoint e r)) ''success'' = Some (JBool True) \<and>
         (\<exists>local_success local_error.
            deliver e wd [] = (Inr (local_success, local_error), [forward_request e wd]) \<and>
            get_field (response (webhook_endpoint e r)) ''local_delivery'' =
              Some (JObj [(''success'', JBool local_success),
                          (''error'', json_of_error local_error),
                          (''target_url'', JStr (LOCAL_SERVER_URL e))]))"
proof -
  from assms(3) obtain ls le
    where d: "deliver e wd [] = (Inr (ls, le), [forward_request e wd])"
    using deliver_absorbed by blast
  with assms(1,2) have "webhook_endpoint e r = ack_response e wd ls le [forward_request e wd]"
    by (simp add: handler_ack)
  with d show ?thesis
    by (simp add: ack_response_def)
qed

theorem ack_independent_of_delivery_witness:
  "normalize env_down req_signal =
     Inr (JObj [(''symbol'', JStr ''BTCUSDT''), (''action'', JStr ''buy'')]) \<and>
   enrich env_down req_signal
     (JObj [(''symbol'', JStr ''BTCUSDT''), (''action'', JStr ''buy'')]) = Inr signal_enriched \<and>
   absorbed (requests_post env_down (forward_request env_down signal_enriched)) \<and>
   status_code (webhook_endpoint env_down req_signal) = 200 \<and>
   get_field (response (webhook_endpoint env_down req_signal)) ''success'' = Some (JBool True) \<and>
   get_field (response (webhook_endpoint env_down req_signal)) ''local_delivery'' =
     Some (JObj [(''success'', JBool False),
                 (''error'', JStr (msg_connect_failed @ ''Connection refused'')),
                 (''target_url'', JStr ''http://localhost:8081'')])"
proof -
  have n: "normalize env_down req_signal =
      Inr (JObj [(''symbol'', JStr ''BTCUSDT''), (''action'', JStr ''buy'')])"
    unfolding env_down_def by (rule normalize_signal)
  have en: "enrich env_down req_signal
      (JObj [(''symbol'', JStr ''BTCUSDT''), (''action'', JStr ''buy'')]) = Inr signal_enriched"
    unfolding env_down_def by (rule enrich_signal)
  have ab: "absorbed (requests_post env_down (forward_request env_down signal_enriched))"
    by (simp add: env_down_def)
  have d: "deliver env_down signal_enriched [] =
      (Inr (False, Some (msg_connect_failed @ ''Connection refused'')),
       [forward_request env_down signal_enriched])"
    by (simp add: env_down_def deliver_def call_post_def)
  have u: "LOCAL_SERVER_URL env_down = ''http://localhost:8081''"
    by (simp add: env_down_def)
  from ack_independent_of_delivery [OF n en ab] n en ab d u show ?thesis
    by (auto simp add: json_of_error_def)
qed

section \<open>The delivery outcome\<close>

text \<open>
  C5. For a request that reaches the forward call: a response with status exactly 200
  gives delivery success true and no error; a response with any other status gives
  success false and an error text ending in the decimal status code, and the handler
  still answers 200; a request exception gives success false and an error text
  carrying the exception's description, and the handler still answers 200.
\<close>

theorem delivery_outcome_by_answer:
  assumes "normalize e r = Inr v" and "enrich e r v = Inr wd"
  shows "(requests_post e (forward_request e wd) = Inr 200 \<longrightarrow>
            deliver e wd [] = (Inr (True, None), [forward_request e wd]) \<and>
            status_code (webhook_endpoint e r) = 200 \<and>
            get_field (response (webhook_endpoint e r)) ''local_delivery'' =
              Some (JObj [(''success'', JBool True), (''error'', JNull),
                          (''target_url'', JStr (LOCAL_SERVER_URL e))])) \<and>
         (\<forall>sc. requests_post e (forward_request e wd) = Inr sc \<and> sc \<noteq> 200 \<longrightarrow>
            deliver e wd [] =
              (Inr (False, Some (msg_response_error @ str_nat sc)), [forward_request e wd]) \<and>
            nat_of_str (str_nat sc) = sc \<and>
            status_code (webhook_endpoint e r) = 200 \<and>
            get_field (response (webhook_endpoint e r)) ''local_delivery'' =
              Some (JObj [(''success'', JBool False),
                          (''error'', JStr (msg_response_error @ str_nat sc)),
                          (''target_url'', JStr (LOCAL_SERVER_URL e))])) \<and>
         (\<forall>m. requests_post e (forward_request e wd) = Inl (RequestException m) \<longrightarrow>
            deliver e wd [] =
              (Inr (False, Some (msg_connect_failed @ str_exn e (RequestException m))),
               [forward_request e wd]) \<and>
            status_code (webhook_endpoint e r) = 200 \<and>
            get_field (response (webhook_endpoint e r)) ''local_delivery'' =
              Some (JObj [(''success'', JBool False),
                          (''error'', JStr (msg_connect_failed @ str_exn e (RequestException m))),
                          (''target_url'', JStr (LOCAL_SERVER_URL e))]))"
proof (intro conjI allI impI)
  assume "requests_post e (forward_request e wd) = Inr 200"
  then have d: "deliver e wd [] = (Inr (True, None), [forward_request e wd])"
    by (rule deliver_200)
  with assms have w: "webhook_endpoint e r =
      ack_response e wd True None [forward_request e wd]"
    by (rule handler_ack)
  show "deliver e wd [] = (Inr (True, None), [forward_request e wd])" by (rule d)
  show "status_code (webhook_endpoint e r) = 200" by (simp add: w ack_response_def)
  show "get_field (response (webhook_endpoint e r)) ''local_delivery'' =
      Some (JObj [(''success'', JBool True), (''error'', JNull),
                  (''target_url'', JStr (LOCAL_SERVER_URL e))])"
    by (simp add: w ack_response_def json_of_error_def)
next
  fix sc
  assume "requests_post e (forward_request e wd) = Inr sc \<and> sc \<noteq> 200"
  then have d: "deliver e wd [] =
      (Inr (False, Some (msg_response_error @ str_nat sc)), [forward_request e wd])"
    by (simp add: deliver_other_status)
  with assms have w: "webhook_endpoint e r =
      ack_response e wd False (Some (msg_response_error @ str_nat sc)) [forward_request e wd]"
    by (rule handler_ack)
  show "deliver e wd [] =
      (Inr (False, Some (msg_response_error @ str_nat sc)), [forward_request e wd])"
    by (rule d)
  show "nat_of_str (str_nat sc) = sc" by (rule nat_of_str_str_nat)
  show "status_code (webhook_endpoint e r) = 200" by (simp add: w ack_response_def)
  show "get_field (response (webhook_endpoint e r)) ''local_delivery'' =
      Some (JObj [(''success'', JBool False),
                  (''error'', JStr (msg_response_error @ str_nat sc)),
                  (''target_url'', JStr (LOCAL_SERVER_URL e))])"
    by (simp add: w ack_response_def json_of_error_def)
next
  fix m
  assume "requests_post e (forward_request e wd) = Inl (RequestException m)"
  then have d: "deliver e wd [] =
      (Inr (False, Some (msg_connect_failed @ str_exn e (RequestException m))),
       [forward_request e wd])"
    by (rule deliver_request_exception)
  with assms have w: "webhook_endpoint e r =
      ack_response e wd False (Some (msg_connect_failed @ str_exn e (RequestException m)))
        [forward_request e wd]"
    by (rule handler_ack)
  show "deliver e wd [] =
      (Inr (False, Some (msg_connect_failed @ str_exn e (RequestException m))),
       [forward_request e wd])"
    by (rule d)
  show "status_code (webhook_endpoint e r) = 200" by (simp add: w ack_response_def)
  show "get_field (response (webhook_endpoint e r)) ''local_delivery'' =
      Some (JObj [(''success'', JBool False),
                  (''error'', JStr (msg_connect_failed @ str_exn e (RequestException m))),
                  (''target_url'', JStr (LOCAL_SERVER_URL e))])"
    by (simp add: w ack_response_def json_of_error_def)
qed

theorem delivery_outcome_by_answer_witness:
  "(requests_post env_up (forward_request env_up signal_enriched) = Inr 200 \<and>
    deliver env_up signal_enriched [] =
      (Inr (True, None), [forward_request env_up signal_enriched]) \<and>
    status_code (webhook_endpoint env_up req_signal) = 200) \<and>
   (requests_post env_404 (forward_request env_404 signal_enriched) = Inr 404 \<and>
    deliver env_404 signal_enriched [] =
      (Inr (False, Some (msg_response_error @ ''404'')),
       [forward_request env_404 signal_enriched]) \<and>
    status_code (webhook_endpoint env_404 req_signal) = 200) \<and>
   (requests_post env_down (forward_request env_down signal_enriched) =
      Inl (RequestException ''Connection refused'') \<and>
    deliver env_down signal_enriched [] =
      (Inr (False, Some (msg_connect_failed @ ''Connection refused'')),
       [forward_request env_down signal_enriched]) \<and>
    status_code (webhook_endpoint env_down req_signal) = 200)"
proof -
  let ?v = "JObj [(''symbol'', JStr ''BTCUSDT''), (''action'', JStr ''buy'')]"
  have up: "requests_post env_up (forward_request env_up signal_enriched) = Inr 200"
    by (simp add: env_up_def)
  have nf: "requests_post env_404 (forward_request env_404 signal_enriched) = Inr 404"
    by (simp add: env_404_def)
  have dn: "requests_post env_down (forward_request env_down signal_enriched) =
      Inl (RequestException ''Connection refused'')"
    by (simp add: env_down_def)
  have s: "str_exn env_down (RequestException ''Connection refused'') = ''Connection refused''"
    by (simp add: env_down_def)
  have a: "normalize env_up req_signal = Inr ?v" "enrich env_up req_signal ?v = Inr signal_enriched"
    unfolding env_up_def by (rule normalize_signal, rule enrich_signal)
  have b: "normalize env_404 req_signal = Inr ?v" "enrich env_404 req_signal ?v = Inr signal_enriched"
    unfolding env_404_def by (rule normalize_signal, rule enrich_signal)
  have c: "normalize env_down req_signal = Inr ?v" "enrich env_down req_signal ?v = Inr signal_enriched"
    unfolding env_down_def by (rule normalize_signal, rule enrich_signal)
  from delivery_outcome_by_answer [OF a] delivery_outcome_by_answer [OF b]
    delivery_outcome_by_answer [OF c] up nf dn s str_nat_404
  show ?thesis by simp
qed


section \<open>The /test payload\<close>

text \<open>
  C8. Every invocation of \<^verbatim>\<open>/test\<close> issues one POST whose JSON body is the payload
  built first, and that payload has symbol "BTCUSDT", action "buy", price 45000,
  strategy "test_strategy" and test true, whatever the downstream answers.
\<close>

theorem test_payload_fields:
  "map json_body (posts (test_webhook e)) = [test_data e] \<and>
   get_field (test_data e) ''symbol'' = Some (JStr ''BTCUSDT'') \<and>
   get_field (test_data e) ''action'' = Some (JStr ''buy'') \<and>
   get_field (test_data e) ''price'' = Some (JInt 45000) \<and>
   get_field (test_data e) ''strategy'' = Some (JStr ''test_strategy'') \<and>
   get_field (test_data e) ''test'' = Some (JBool True)"
  by (simp add: test_webhook_def call_post_def test_request_def test_data_def split: sum.split)


section \<open>The fallback chain\<close>

text \<open>
  C2. The payload the handler computes is the first match of the ordered chain of the
  specification: (1) a content type containing \<^verbatim>\<open>application/json\<close> gives the outcome
  of the JSON parse of the body, a failure included (it is not caught); (2) otherwise
  a form with at least one field gives the form; (3) otherwise raw text that parses
  as JSON gives the parsed value; (4) otherwise the result is the raw text under
  \<^verbatim>\<open>message\<close>, so a failed parse in step 3 is not an error.
\<close>

theorem normalize_is_fallback_chain:
  "spec_normalize e r = Some (normalize e r) \<and>
   (sublist ''application/json'' (content_type r) \<longrightarrow> normalize e r = get_json r) \<and>
   (\<not> sublist ''application/json'' (content_type r) \<and> form r \<noteq> [] \<longrightarrow>
      normalize e r = Inr (JObj (map (\<lambda>(k, v). (k, JStr v)) (form r)))) \<and>
   (\<forall>v. \<not> sublist ''application/json'' (content_type r) \<and> form r = [] \<and>
      json_loads e (get_data r) = Some v \<longrightarrow> normalize e r = Inr v) \<and>
   (\<not> sublist ''application/json'' (content_type r) \<and> form r = [] \<and>
      json_loads e (get_data r) = None \<longrightarrow>
      normalize e r = Inr (JObj [(''message'', JStr (get_data r))]))"
proof -
  have "spec_normalize e r = Some (normalize e r)"
  proof (cases "sublist ''application/json'' (content_type r)")
    case True
    then show ?thesis
      by (simp add: spec_normalize_def spec_step_json_def normalize_cases(1))
  next
    case ct: False
    show ?thesis
    proof (cases "form r = []")
      case False
      with ct show ?thesis
        by (simp add: spec_normalize_def spec_step_json_def spec_step_form_def normalize_cases(2))
    next
      case True
      with ct show ?thesis
        by (cases "json_loads e (get_data r)")
          (simp_all add: spec_normalize_def spec_step_json_def spec_step_form_def
            spec_step_raw_json_def spec_step_wrap_def normalize_cases(3,4))
    qed
  qed
  then show ?thesis
    by (simp add: normalize_cases)
qed

theorem normalize_is_fallback_chain_witness:
  "(sublist ''application/json'' (content_type req_bad_json) \<and>
    normalize env_up req_bad_json = Inl BadRequest) \<and>
   (\<not> sublist ''application/json'' (content_type req_form) \<and> form req_form \<noteq> [] \<and>
    normalize env_up req_form = Inr (JObj [(''symbol'', JStr ''BTCUSDT'')])) \<and>
   (\<not> sublist ''application/json'' (content_type req_raw_object) \<and> form req_raw_object = [] \<and>
    json_loads env_up (get_data req_raw_object) = Some (JObj []) \<and>
    normalize env_up req_raw_object = Inr (JObj [])) \<and>
   (\<not> sublist ''application/json'' (content_type req_text) \<and> form req_text = [] \<and>
    json_loads env_up (get_data req_text) = None \<and>
    normalize env_up req_text = Inr (JObj [(''message'', JStr ''hello world'')]))"
proof -
  have f: "form req_form = [(''symbol'', ''BTCUSDT'')]" "form req_raw_object = []"
    "form req_text = []" "get_json req_bad_json = Inl BadRequest"
    "get_data req_text = ''hello world''"
    by (simp_all add: req_form_def req_raw_object_def req_text_def req_bad_json_def)
  have l: "json_loads env_up (get_data req_raw_object) = Some (JObj [])"
    "json_loads env_up (get_data req_text) = None"
    by (simp_all add: env_up_def req_raw_object_def req_text_def sample_loads_def)
  from normalize_is_fallback_chain [of env_up req_bad_json]
    normalize_is_fallback_chain [of env_up req_form]
    normalize_is_fallback_chain [of env_up req_raw_object]
    normalize_is_fallback_chain [of env_up req_text]
    json_content_type(3) other_content_types text_content_type f l
  show ?thesis by simp
qed

section \<open>Inbound failures\<close>

text \<open>
  C6. A request whose content type contains \<^verbatim>\<open>application/json\<close> and whose body does
  not parse (the JSON parse raises) is answered 500 with success false and the text of
  the exception under \<^verbatim>\<open>error\<close>.
\<close>

theorem malformed_json_is_500:
  assumes "sublist ''application/json'' (content_type r)" and "get_json r = Inl ex"
  shows "status_code (webhook_endpoint e r) = 500 \<and>
         get_field (response (webhook_endpoint e r)) ''success'' = Some (JBool False) \<and>
         get_field (response (webhook_endpoint e r)) ''error'' = Some (JStr (str_exn e ex))"
proof -
  from assms have "normalize e r = Inl ex"
    by (simp add: normalize_cases(1))
  then have "webhook_endpoint e r = error_response e ex []"
    by (rule handler_raise_normalize)
  then show ?thesis by simp
qed

theorem malformed_json_is_500_witness:
  "sublist ''application/json'' (content_type req_bad_json) \<and>
   get_json req_bad_json = Inl BadRequest \<and>
   status_code (webhook_endpoint env_up req_bad_json) = 500 \<and>
   get_field (response (webhook_endpoint env_up req_bad_json)) ''success'' = Some (JBool False) \<and>
   get_field (response (webhook_endpoint env_up req_bad_json)) ''error'' =
     Some (JStr ''400 Bad Request'')"
proof -
  have g: "get_json req_bad_json = Inl BadRequest"
    by (simp add: req_bad_json_def)
  have s: "str_exn env_up BadRequest = ''400 Bad Request''"
    by (simp add: env_up_def)
  from malformed_json_is_500 [OF json_content_type(3) g, of env_up] json_content_type(3) g s
  show ?thesis by simp
qed

text \<open>
  C9. When normalization raises, or enrichment raises, no downstream POST is issued,
  the status is 500, and the response has exactly the keys success, error and message:
  no \<^verbatim>\<open>local_delivery\<close> and no echoed payload.
\<close>

theorem failed_inbound_skips_forwarding:
  assumes "normalize e r = Inl ex \<or> (\<exists>v. normalize e r = Inr v \<and> enrich e r v = Inl ex)"
  shows "posts (webhook_endpoint e r) = [] \<and>
         status_code (webhook_endpoint e r) = 500 \<and>
         response (webhook_endpoint e r) =
           JObj [(''success'', JBool False), (''error'', JStr (str_exn e ex)),
                 (''message'', JStr msg_processing_error)] \<and>
         keys (response (webhook_endpoint e r)) = [''success'', ''error'', ''message''] \<and>
         get_field (response (webhook_endpoint e r)) ''local_delivery'' = None \<and>
         get_field (response (webhook_endpoint e r)) ''data_received'' = None"
proof -
  from assms have "webhook_endpoint e r = error_response e ex []"
    by (auto simp: handler_raise_normalize handler_raise_enrich)
  then show ?thesis by simp
qed

theorem failed_inbound_skips_forwarding_witness:
  "(normalize env_up req_bad_json = Inl BadRequest \<and>
    posts (webhook_endpoint env_up req_bad_json) = [] \<and>
    status_code (webhook_endpoint env_up req_bad_json) = 500 \<and>
    keys (response (webhook_endpoint env_up req_bad_json)) = [''success'', ''error'', ''message'']) \<and>
   (normalize env_up req_array = Inr (JArr [JInt 1]) \<and>
    enrich env_up req_array (JArr [JInt 1]) = Inl (TypeError (JArr [JInt 1])) \<and>
    posts (webhook_endpoint env_up req_array) = [] \<and>
    status_code (webhook_endpoint env_up req_array) = 500 \<and>
    keys (response (webhook_endpoint env_up req_array)) = [''success'', ''error'', ''message''])"
proof -
  have n1: "normalize env_up req_bad_json = Inl BadRequest"
    unfolding env_up_def by (rule normalize_bad_json)
  have n2: "normalize env_up req_array = Inr (JArr [JInt 1])"
    unfolding env_up_def by (rule normalize_array)
  have e2: "enrich env_up req_array (JArr [JInt 1]) = Inl (TypeError (JArr [JInt 1]))"
    unfolding env_up_def by (rule enrich_array)
  from n1 have h1: "normalize env_up req_bad_json = Inl BadRequest \<or>
      (\<exists>v. normalize env_up req_bad_json = Inr v \<and> enrich env_up req_bad_json v = Inl BadRequest)"
    by simp
  from n2 e2 have h2: "normalize env_up req_array = Inl (TypeError (JArr [JInt 1])) \<or>
      (\<exists>v. normalize env_up req_array = Inr v \<and>
           enrich env_up req_array v = Inl (TypeError (JArr [JInt 1])))"
    by simp
  from failed_inbound_skips_forwarding [OF h1] failed_inbound_skips_forwarding [OF h2] n1 n2 e2
  show ?thesis by simp
qed

section \<open>The forward call\<close>

text \<open>
  C7. For a request that reaches the forwarding step (normalization and enrichment
  returned), the calls the handler executed are exactly those its forwarding step
  executed on the empty log, and that is one call: a POST to the configured base URL
  followed by \<^verbatim>\<open>/webhook\<close>, with the enriched mapping as JSON body, the header
  \<^verbatim>\<open>Content-Type: application/json\<close> and a timeout of 10 seconds. This holds whatever the
  call answers or raises, so there is no second attempt.
\<close>

theorem forwards_exactly_once:
  assumes "normalize e r = Inr v" and "enrich e r v = Inr wd"
  shows "posts (webhook_endpoint e r) =
           [\<lparr>url = LOCAL_SERVER_URL e @ ''/webhook'', json_body = wd, timeout = 10,
             post_headers = [(''Content-Type'', ''application/json'')]\<rparr>] \<and>
         length (posts (webhook_endpoint e r)) = 1 \<and>
         posts (webhook_endpoint e r) = snd (deliver e wd []) \<and>
         snd (call_post e (forward_request e wd) []) = posts (webhook_endpoint e r)"
proof -
  from assms have "posts (webhook_endpoint e r) = snd (deliver e wd [])"
    by (rule handler_posts_deliver)
  moreover have "snd (deliver e wd []) = [forward_request e wd]"
    by (simp add: deliver_log)
  ultimately show ?thesis
    by (simp add: forward_request_def call_post_def)
qed

theorem forwards_exactly_once_witness:
  "normalize env_down req_proxied =
     Inr (JObj [(''symbol'', JStr ''BTCUSDT''), (''action'', JStr ''buy'')]) \<and>
   enrich env_down req_proxied
     (JObj [(''symbol'', JStr ''BTCUSDT''), (''action'', JStr ''buy'')]) = Inr proxied_enriched \<and>
   posts (webhook_endpoint env_down req_proxied) =
     [\<lparr>url = ''http://localhost:8081/webhook'', json_body = proxied_enriched, timeout = 10,
       post_headers = [(''Content-Type'', ''application/json'')]\<rparr>]"
proof -
  have n: "normalize env_down req_proxied =
      Inr (JObj [(''symbol'', JStr ''BTCUSDT''), (''action'', JStr ''buy'')])"
    unfolding env_down_def by (rule normalize_proxied)
  have en: "enrich env_down req_proxied
      (JObj [(''symbol'', JStr ''BTCUSDT''), (''action'', JStr ''buy'')]) = Inr proxied_enriched"
    unfolding env_down_def by (rule enrich_proxied)
  have u: "LOCAL_SERVER_URL env_down = ''http://localhost:8081''"
    by (simp add: env_down_def)
  from forwards_exactly_once [OF n en] n en u show ?thesis by simp
qed


section \<open>The echoed payload\<close>

text \<open>
  C4. For a JSON object received under a content type containing
  \<^verbatim>\<open>application/json\<close>, the payload echoed under \<^verbatim>\<open>data_received\<close> (present whenever the
  forward call answers or raises a request exception) has as keys exactly the keys of
  the body and the three enrichment fields, without duplicates if the body had none;
  every other key keeps the body's value; \<^verbatim>\<open>heroku_received_at\<close> is the clock reading,
  \<^verbatim>\<open>heroku_timestamp\<close> the formatted time, and \<^verbatim>\<open>client_ip\<close> the forwarded-for header
  when the request has one and the peer address otherwise.
\<close>

theorem json_object_echoed_with_enrichment:
  assumes "sublist ''application/json'' (content_type r)" and "get_json r = Inr (JObj kvs)"
  shows "\<exists>echo.
           (absorbed (requests_post e (forward_request e (JObj echo))) \<longrightarrow>
              get_field (response (webhook_endpoint e r)) ''data_received'' = Some (JObj echo)) \<and>
           set (map fst echo) = set (map fst kvs) \<union> enrichment_keys \<and>
           (distinct (map fst kvs) \<longrightarrow> distinct (map fst echo)) \<and>
           (\<forall>k. k \<notin> enrichment_keys \<longrightarrow> map_of echo k = map_of kvs k) \<and>
           map_of echo ''heroku_received_at'' = Some (JFloat (time_time_1 e)) \<and>
           map_of echo ''heroku_timestamp'' = Some (JStr (time_strftime e)) \<and>
           (\<forall>a. headers r ''X-Forwarded-For'' = Some a \<longrightarrow>
              map_of echo ''client_ip'' = Some (JStr a)) \<and>
           (headers r ''X-Forwarded-For'' = None \<longrightarrow>
              map_of echo ''client_ip'' =
                Some (case remote_addr r of Some a \<Rightarrow> JStr a | None \<Rightarrow> JNull))"
proof -
  from assms have n: "normalize e r = Inr (JObj kvs)"
    by (simp add: normalize_cases(1))
  obtain echo where en: "enrich e r (JObj kvs) = Inr (JObj echo)"
    by (simp add: enrich_object)
  have ack: "get_field (response (webhook_endpoint e r)) ''data_received'' = Some (JObj echo)"
    if "absorbed (requests_post e (forward_request e (JObj echo)))"
  proof -
    from that obtain ls le
      where "deliver e (JObj echo) [] = (Inr (ls, le), [forward_request e (JObj echo)])"
      using deliver_absorbed by blast
    with n en have "webhook_endpoint e r =
        ack_response e (JObj echo) ls le [forward_request e (JObj echo)]"
      by (rule handler_ack)
    then show ?thesis by (simp add: ack_response_def)
  qed
  have m: "map_of echo = (map_of kvs)
      (''heroku_received_at'' \<mapsto> JFloat (time_time_1 e),
       ''heroku_timestamp'' \<mapsto> JStr (time_strftime e),
       ''client_ip'' \<mapsto> client_ip r)"
    using en by (rule enriched_lookup)
  have other: "map_of echo k = map_of kvs k" if "k \<notin> enrichment_keys" for k
    using that by (simp add: m enrichment_keys_def)
  have ip1: "map_of echo ''client_ip'' = Some (JStr a)"
    if "headers r ''X-Forwarded-For'' = Some a" for a
    using that by (simp add: m client_ip_def)
  have ip2: "map_of echo ''client_ip'' =
      Some (case remote_addr r of Some a \<Rightarrow> JStr a | None \<Rightarrow> JNull)"
    if "headers r ''X-Forwarded-For'' = None"
    using that by (simp add: m client_ip_def)
  have t1: "map_of echo ''heroku_received_at'' = Some (JFloat (time_time_1 e))"
    by (simp add: m)
  have t2: "map_of echo ''heroku_timestamp'' = Some (JStr (time_strftime e))"
    by (simp add: m)
  from ack enriched_keys [OF en] enriched_distinct [OF en] other t1 t2 ip1 ip2
  show ?thesis by (intro exI [of _ echo]) simp
qed

theorem json_object_echoed_with_enrichment_witness:
  "sublist ''application/json'' (content_type req_proxied) \<and>
   get_json req_proxied = Inr (JObj [(''symbol'', JStr ''BTCUSDT''), (''action'', JStr ''buy'')]) \<and>
   headers req_proxied ''X-Forwarded-For'' = Some ''203.0.113.7'' \<and>
   (\<exists>echo.
      (absorbed (requests_post env_up (forward_request env_up (JObj echo))) \<and>
       get_field (response (webhook_endpoint env_up req_proxied)) ''data_received'' =
         Some (JObj echo)) \<and>
      set (map fst echo) =
        {''symbol'', ''action'', ''heroku_received_at'', ''heroku_timestamp'', ''client_ip''} \<and>
      distinct (map fst echo) \<and>
      map_of echo ''symbol'' = Some (JStr ''BTCUSDT'') \<and>
      map_of echo ''client_ip'' = Some (JStr ''203.0.113.7''))"
proof -
  have g: "get_json req_proxied =
      Inr (JObj [(''symbol'', JStr ''BTCUSDT''), (''action'', JStr ''buy'')])"
    by (simp add: req_proxied_def req_signal_def)
  have h: "headers req_proxied ''X-Forwarded-For'' = Some ''203.0.113.7''"
    by (simp add: req_proxied_def)
  have a: "absorbed (requests_post env_up pr)" for pr
    by (simp add: env_up_def)
  have k: "''symbol'' \<notin> enrichment_keys"
    by (simp add: enrichment_keys_def)
  from json_object_echoed_with_enrichment [OF json_content_type(2) g, of env_up]
  obtain echo where
    e1: "absorbed (requests_post env_up (forward_request env_up (JObj echo))) \<longrightarrow>
         get_field (response (webhook_endpoint env_up req_proxied)) ''data_received'' =
           Some (JObj echo)"
    and e2: "set (map fst echo) =
         set (map fst [(''symbol'', JStr ''BTCUSDT''), (''action'', JStr ''buy'')]) \<union> enrichment_keys"
    and e3: "distinct (map fst [(''symbol'', JStr ''BTCUSDT''), (''action'', JStr ''buy'')]) \<longrightarrow>
         distinct (map fst echo)"
    and e4: "\<forall>k. k \<notin> enrichment_keys \<longrightarrow>
         map_of echo k = map_of [(''symbol'', JStr ''BTCUSDT''), (''action'', JStr ''buy'')] k"
    and e5: "\<forall>a. headers req_proxied ''X-Forwarded-For'' = Some a \<longrightarrow>
         map_of echo ''client_ip'' = Some (JStr a)"
    by blast
  from e1 a have w1: "get_field (response (webhook_endpoint env_up req_proxied)) ''data_received'' =
      Some (JObj echo)" by simp
  from e2 have w2: "set (map fst echo) =
      {''symbol'', ''action'', ''heroku_received_at'', ''heroku_timestamp'', ''client_ip''}"
    by (auto simp: enrichment_keys_def)
  from e3 have w3: "distinct (map fst echo)" by simp
  from e4 k have w4: "map_of echo ''symbol'' = Some (JStr ''BTCUSDT'')" by simp
  from e5 h have w5: "map_of echo ''client_ip'' = Some (JStr ''203.0.113.7'')" by simp
  from a w1 w2 w3 w4 w5 json_content_type(2) g h show ?thesis by blast
qed

section \<open>Payloads that are not mappings\<close>

text \<open>
  C3. The claim that every body reaches enrichment and forwarding fails: a JSON array
  sent as \<^verbatim>\<open>application/json\<close> parses, is not a mapping, and is answered 500 with no
  POST issued; so is a body that does not parse under that content type.
\<close>

theorem non_mapping_body_rejected:
  "get_json req_array = Inr (JArr [JInt 1]) \<and>
   normalize env_up req_array = Inr (JArr [JInt 1]) \<and>
   status_code (webhook_endpoint env_up req_array) = 500 \<and>
   posts (webhook_endpoint env_up req_array) = [] \<and>
   get_json req_bad_json = Inl BadRequest \<and>
   status_code (webhook_endpoint env_up req_bad_json) = 500 \<and>
   posts (webhook_endpoint env_up req_bad_json) = []"
proof -
  have n1: "normalize env_up req_bad_json = Inl BadRequest"
    unfolding env_up_def by (rule normalize_bad_json)
  have n2: "normalize env_up req_array = Inr (JArr [JInt 1])"
    unfolding env_up_def by (rule normalize_array)
  have e2: "enrich env_up req_array (JArr [JInt 1]) = Inl (TypeError (JArr [JInt 1]))"
    unfolding env_up_def by (rule enrich_array)
  have g: "get_json req_array = Inr (JArr [JInt 1])" "get_json req_bad_json = Inl BadRequest"
    by (simp_all add: req_array_def req_bad_json_def)
  from handler_raise_normalize [OF n1] handler_raise_enrich [OF n2 e2] n2 g
  show ?thesis by simp
qed

text \<open>
  C3, amended. Every request whose normalized payload is a key-value mapping reaches
  enrichment and forwarding: enrichment returns a mapping, exactly one POST carries
  it, and the answer is 200 unless the forward call raises outside the request
  exceptions. In particular a body with no form fields that does not parse as JSON,
  sent without a JSON content type, is wrapped under \<^verbatim>\<open>message\<close> and is such a mapping.
\<close>

theorem mapping_payload_reaches_forwarding:
  "(\<forall>kvs. normalize e r = Inr (JObj kvs) \<longrightarrow>
      (\<exists>wd. enrich e r (JObj kvs) = Inr (JObj wd) \<and>
            posts (webhook_endpoint e r) = [forward_request e (JObj wd)] \<and>
            (absorbed (requests_post e (forward_request e (JObj wd))) \<longrightarrow>
               status_code (webhook_endpoint e r) = 200))) \<and>
   (\<not> sublist ''application/json'' (content_type r) \<and> form r = [] \<and>
    json_loads e (get_data r) = None \<longrightarrow>
      normalize e r = Inr (JObj [(''message'', JStr (get_data r))]))"
proof (intro conjI allI impI)
  fix kvs
  assume n: "normalize e r = Inr (JObj kvs)"
  obtain wd where en: "enrich e r (JObj kvs) = Inr (JObj wd)"
    by (simp add: enrich_object)
  have p: "posts (webhook_endpoint e r) = [forward_request e (JObj wd)]"
    using n en by (rule handler_posts_once)
  have s: "status_code (webhook_endpoint e r) = 200"
    if "absorbed (requests_post e (forward_request e (JObj wd)))"
  proof -
    from that obtain ls le
      where "deliver e (JObj wd) [] = (Inr (ls, le), [forward_request e (JObj wd)])"
      using deliver_absorbed by blast
    with n en have "webhook_endpoint e r =
        ack_response e (JObj wd) ls le [forward_request e (JObj wd)]"
      by (rule handler_ack)
    then show ?thesis by (simp add: ack_response_def)
  qed
  from en p s show "\<exists>wd. enrich e r (JObj kvs) = Inr (JObj wd) \<and>
      posts (webhook_endpoint e r) = [forward_request e (JObj wd)] \<and>
      (absorbed (requests_post e (forward_request e (JObj wd))) \<longrightarrow>
         status_code (webhook_endpoint e r) = 200)"
    by blast
next
  assume "\<not> sublist ''application/json'' (content_type r) \<and> form r = [] \<and>
    json_loads e (get_data r) = None"
  then show "normalize e r = Inr (JObj [(''message'', JStr (get_data r))])"
    by (simp add: normalize_cases(4))
qed

theorem mapping_payload_reaches_forwarding_witness:
  "\<not> sublist ''application/json'' (content_type req_text) \<and> form req_text = [] \<and>
   json_loads env_down (get_data req_text) = None \<and>
   normalize env_down req_text = Inr (JObj [(''message'', JStr ''hello world'')]) \<and>
   enrich env_down req_text (JObj [(''message'', JStr ''hello world'')]) = Inr text_enriched \<and>
   posts (webhook_endpoint env_down req_text) = [forward_request env_down text_enriched] \<and>
   absorbed (requests_post env_down (forward_request env_down text_enriched)) \<and>
   status_code (webhook_endpoint env_down req_text) = 200"
proof -
  have f: "form req_text = []" "get_data req_text = ''hello world''"
    by (simp_all add: req_text_def)
  have l: "json_loads env_down (get_data req_text) = None"
    by (simp add: env_down_def req_text_def sample_loads_def)
  have en: "enrich env_down req_text (JObj [(''message'', JStr ''hello world'')]) =
      Inr text_enriched"
    unfolding env_down_def by (rule enrich_text)
  have a: "absorbed (requests_post env_down pr)" for pr
    by (simp add: env_down_def)
  from mapping_payload_reaches_forwarding [of env_down req_text] text_content_type f l en a
  show ?thesis by (auto simp: text_enriched_def)
qed

section \<open>The /test response\<close>

text \<open>
  C10. When the downstream answers \<^verbatim>\<open>/test\<close>'s POST with status 404, the handler
  answers 200 with success true, but \<^verbatim>\<open>local_response\<close> is the text "No response"
  and not the status code: a \<^verbatim>\<open>requests.Response\<close> with a status from 400 to 599 is
  false in the conditional of line 141.
\<close>

theorem test_hides_error_status:
  "requests_post env_404 (test_request env_404) = Inr 404 \<and>
   status_code (test_webhook env_404) = 200 \<and>
   get_field (response (test_webhook env_404)) ''success'' = Some (JBool True) \<and>
   get_field (response (test_webhook env_404)) ''local_response'' = Some (JStr ''No response'')"
proof -
  have p: "requests_post env_404 (test_request env_404) = Inr 404"
    by (simp add: env_404_def)
  from test_local_response [OF p] test_success_iff_returned [of env_404] p
  show ?thesis by (simp add: test_status_always_200)
qed

end
